theory Spec2Isabelle
  imports Main "HOL-Library.Word"
begin

unbundle bit_operations_syntax

section \<open>Mimosa26 raw data interpreter: data model\<close>

text \<open>
  Shallow embedding of \<^verbatim>\<open>pyBAR_mimosa26_interpreter/raw_data_interpreter.py\<close> and of the
  constructor of \<^verbatim>\<open>data_interpreter.DataInterpreter\<close>.

  Conventions of the embedding.
  \<^item> \<^verbatim>\<open>build_hits\<close> is compiled by numba (\<^verbatim>\<open>@njit\<close>): a raw word is an unsigned 32-bit value,
    every integer literal is a 64-bit integer, and an operation between the two is carried
    out on 64-bit integers. No intermediate value of the function leaves the range of a 64-bit
    integer, so intermediate values are modelled as \<open>int\<close>; a store into a numpy array or
    into a field of a hit truncates to the width of the element, written \<open>word_of_int\<close>.
  \<^item> A \<^verbatim>\<open>uint32\<close> array is a list of \<open>32 word\<close>; an \<^verbatim>\<open>int32\<close> array is a list of
    \<open>32 word\<close> read through \<open>sint\<close>.
  \<^item> Under numba, \<^verbatim>\<open>m26_data_loss[plane_id] is True\<close> compares the boolean values.
  \<^item> An index \<open>-1\<close> wraps around to the last element, as in Python and under numba. An
    index beyond the shape of an array is not checked by numba: the compiled function raises
    nothing, it reads or writes outside the array, and what it does from there on is not
    determined by the source. A Mimosa26 word does this exactly if its plane field is 7 or
    more. The model stops such a run with the outcome \<open>OutOfBounds\<close>, which stands for
    ``not determined'', not for an exception; a statement about a run that returns a result is
    a statement about a stream that stays within the arrays.
  \<^item> The hit buffer (allocated with \<^verbatim>\<open>max_hits_per_chunk\<close> entries and extended by a block of the
    same size whenever it is full) is modelled by the list of the hits stored so far, which is
    what \<^verbatim>\<open>hits[:hit_index]\<close> returns when \<^verbatim>\<open>max_hits_per_chunk\<close> is positive.
\<close>

type_synonym u8 = "8 word"
type_synonym u16 = "16 word"
type_synonym u32 = "32 word"
type_synonym i32 = "32 word"

text \<open>\<^verbatim>\<open>hit_dtype\<close>; the fields carry the prefix \<open>hit_\<close> because \<open>row\<close>, \<open>event_status\<close> and
  \<open>trigger_number\<close> are also names of state variables.\<close>

record hit =
  hit_plane :: u8
  hit_frame :: u32
  hit_time_stamp :: u32
  hit_trigger_number :: u16
  hit_column :: u16
  hit_row :: u16
  hit_event_status :: u32

definition FRAME_UNIT_CYCLE :: int where "FRAME_UNIT_CYCLE = 4608"

definition EVENT_INCOMPLETE :: u32 where "EVENT_INCOMPLETE = 0x00000008"
definition UNKNOWN_WORD :: u32 where "UNKNOWN_WORD = 0x00000010"
definition UNEVEN_EVENT :: u32 where "UNEVEN_EVENT = 0x00000020"
definition TRG_ERROR :: u32 where "TRG_ERROR = 0x00000040"
definition TRAILER_H_ERROR :: u32 where "TRAILER_H_ERROR = 0x00000100"
definition TRAILER_L_ERROR :: u32 where "TRAILER_L_ERROR = 0x00000200"
definition MIMOSA_OVERFLOW :: u32 where "MIMOSA_OVERFLOW = 0x00000400"
definition COL_ERROR :: u32 where "COL_ERROR = 0x00001000"
definition ROW_ERROR :: u32 where "ROW_ERROR = 0x00002000"
definition TRG_WORD :: u32 where "TRG_WORD = 0x00004000"
definition TS_OVERFLOW :: u32 where "TS_OVERFLOW = 0x00008000"

text \<open>The variables that \<^verbatim>\<open>build_hits\<close> receives and returns, buffered between chunks.\<close>

record state =
  frame_id :: "u32 list"
  last_frame_id :: u32
  frame_length :: "i32 list"
  m26_data_loss :: "bool list"
  word_index :: "i32 list"
  n_words :: "u32 list"
  row :: "i32 list"
  event_status :: "u32 list"
  event_number :: "int list"
  trigger_number :: int
  m26_timestamps :: "u32 list"
  trigger_timestamp :: int
  last_m26_timestamps :: u32
  last_trigger_timestamp :: int

text \<open>The shapes that \<^verbatim>\<open>reset\<close> gives the arrays; no operation changes them.\<close>

definition shapes :: "state \<Rightarrow> bool" where
  "shapes s \<longleftrightarrow>
     length (frame_id s) = 7 \<and> length (frame_length s) = 6 \<and> length (m26_data_loss s) = 6 \<and>
     length (word_index s) = 6 \<and> length (n_words s) = 6 \<and> length (row s) = 6 \<and>
     length (event_status s) = 7 \<and> length (m26_timestamps s) = 6"

text \<open>The outcomes other than a result: \<open>OutOfBounds\<close>, an access outside an array in the
  compiled function (see above), and \<open>RuntimeError\<close>, the exception of the constructor of
  \<^verbatim>\<open>DataInterpreter\<close>.\<close>

datatype error = OutOfBounds | RuntimeError

section \<open>Word classification and field extraction\<close>

definition is_mimosa_data :: "u32 \<Rightarrow> bool" where
  "is_mimosa_data word \<longleftrightarrow> (0xff000000 AND uint word) = 0x20000000"

definition is_data_loss :: "u32 \<Rightarrow> bool" where
  "is_data_loss word \<longleftrightarrow> (0x00020000 AND uint word) = 0x00020000"

definition get_plane_number :: "u32 \<Rightarrow> int" where
  "get_plane_number word = (drop_bit 20 (uint word)) AND 0xf"

definition get_frame_id_low :: "u32 \<Rightarrow> int" where
  "get_frame_id_low word = 0x0000ffff AND uint word"

definition get_frame_id_high :: "u32 \<Rightarrow> int" where
  "get_frame_id_high word = push_bit 16 (0x0000ffff AND uint word)"

definition is_frame_header0 :: "u32 \<Rightarrow> bool" where
  "is_frame_header0 word \<longleftrightarrow> (0x0000ffff AND uint word) = 0x00005555"

definition is_frame_header1 :: "u32 \<Rightarrow> int \<Rightarrow> bool" where
  "is_frame_header1 word plane \<longleftrightarrow> (0x0000ffff AND uint word) = (0x00005550 OR plane)"

definition is_frame_trailer0 :: "u32 \<Rightarrow> bool" where
  "is_frame_trailer0 word \<longleftrightarrow> (0x0000ffff AND uint word) = 0xaa50"

definition is_frame_trailer1 :: "u32 \<Rightarrow> int \<Rightarrow> bool" where
  "is_frame_trailer1 word plane \<longleftrightarrow> (0x0000ffff AND uint word) = (0xaa50 OR plane)"

definition get_frame_length :: "u32 \<Rightarrow> int" where
  "get_frame_length word = (0x0000ffff AND uint word) * 2"

definition get_n_hits :: "u32 \<Rightarrow> int" where
  "get_n_hits word = 0x00000003 AND uint word"

definition get_column :: "u32 \<Rightarrow> int" where
  "get_column word = (drop_bit 2 (uint word)) AND 0x7ff"

definition get_row :: "u32 \<Rightarrow> int" where
  "get_row word = (drop_bit 4 (uint word)) AND 0x7ff"

definition is_frame_header :: "u32 \<Rightarrow> bool" where
  "is_frame_header word \<longleftrightarrow> (0x00010000 AND uint word) = 0x00010000"

definition get_m26_timestamp_low :: "u32 \<Rightarrow> int" where
  "get_m26_timestamp_low word = 0x0000ffff AND uint word"

definition get_m26_timestamp_high :: "u32 \<Rightarrow> int" where
  "get_m26_timestamp_high word = push_bit 16 (0x0000ffff AND uint word)"

definition get_n_words :: "u32 \<Rightarrow> int" where
  "get_n_words word = 0x0000000f AND uint word"

definition has_overflow :: "u32 \<Rightarrow> bool" where
  "has_overflow word \<longleftrightarrow> (0x00008000 AND uint word) \<noteq> 0"

definition is_trigger_word :: "u32 \<Rightarrow> bool" where
  "is_trigger_word word \<longleftrightarrow> (0x80000000 AND uint word) = 0x80000000"

definition get_trigger_timestamp :: "u32 \<Rightarrow> int" where
  "get_trigger_timestamp word = drop_bit 16 (uint word AND 0x7fff0000)"

definition get_trigger_number :: "u32 \<Rightarrow> int \<Rightarrow> int" where
  "get_trigger_number word tdf =
     (if tdf = 2 then uint word AND 0x0000ffff else uint word AND 0x7fffffff)"

definition add_event_status :: "nat \<Rightarrow> u32 list \<Rightarrow> u32 \<Rightarrow> u32 list" where
  "add_event_status plane_id es status_code = es[plane_id := (es ! plane_id) OR status_code]"

text \<open>Python's index normalisation for an array with \<open>n\<close> elements: a negative index counts
  from the end, an index outside the array has no element.\<close>

definition py_index :: "int \<Rightarrow> nat \<Rightarrow> nat option" where
  "py_index i n =
     (if 0 \<le> i \<and> i < int n then Some (nat i)
      else if - int n \<le> i \<and> i < 0 then Some (nat (i + int n))
      else None)"

section \<open>The body of the loop of \<^verbatim>\<open>build_hits\<close>\<close>

text \<open>A word with the frame start flag: the branch \<^verbatim>\<open>elif is_frame_header(word)\<close>.
  \<open>p\<close> is the normalised index \<open>plane_id\<close> into the arrays of shape 6.\<close>

definition frame_header_word :: "u32 \<Rightarrow> int \<Rightarrow> nat \<Rightarrow> state \<Rightarrow> state" where
  "frame_header_word word plane_id p s =
     (let s1 = (if plane_id = 0
                then s\<lparr>last_m26_timestamps := m26_timestamps s ! 0,
                       last_frame_id := frame_id s ! 1\<rparr>
                else s)
      in s1\<lparr>m26_timestamps := (m26_timestamps s1)[p :=
                word_of_int (get_m26_timestamp_low word
                             OR (uint (m26_timestamps s1 ! p) AND 0xffff0000))],
             word_index := (word_index s1)[p := 0],
             frame_length := (frame_length s1)[p := word_of_int (- 1)],
             n_words := (n_words s1)[p := 0],
             m26_data_loss := (m26_data_loss s1)[p := False]\<rparr>)"

text \<open>The first word of a row (\<^verbatim>\<open>n_words[plane_id] == 0\<close>); \<open>q\<close> is the index
  \<open>plane_id + 1\<close> into the arrays of shape 7, \<open>wi\<close> the incremented word index.\<close>

definition row_word :: "u32 \<Rightarrow> nat \<Rightarrow> nat \<Rightarrow> state \<Rightarrow> state" where
  "row_word word p q s =
     (let wi = sint (word_index s ! p);
          s1 = (if wi = 5 + sint (frame_length s ! p)
                then s\<lparr>event_status := add_event_status q (event_status s) UNEVEN_EVENT\<rparr>
                else s\<lparr>n_words := (n_words s)[p := word_of_int (get_n_words word)],
                       row := (row s)[p := word_of_int (get_row word)]\<rparr>);
          s2 = (if has_overflow word
                then s1\<lparr>event_status := add_event_status q (event_status s1) MIMOSA_OVERFLOW,
                        n_words := (n_words s1)[p := 0]\<rparr>
                else s1)
      in if sint (row s2 ! p) > 576
         then s2\<lparr>event_status := add_event_status q (event_status s2) ROW_ERROR\<rparr>
         else s2)"

text \<open>The hit stored for index \<open>k\<close> of the loop \<^verbatim>\<open>for k in range(n_hits + 1)\<close>.\<close>

definition m26_hit :: "int \<Rightarrow> nat \<Rightarrow> state \<Rightarrow> int \<Rightarrow> int \<Rightarrow> hit" where
  "m26_hit plane_id p s column k =
     \<lparr>hit_plane = word_of_int (plane_id + 1),
      hit_frame = frame_id s ! nat (plane_id + 1),
      hit_time_stamp = m26_timestamps s ! p,
      hit_trigger_number =
        (if trigger_number s < 0 then 0 else word_of_int (trigger_number s)),
      hit_column = word_of_int (column + k),
      hit_row = word_of_int (sint (row s ! p)),
      hit_event_status = event_status s ! nat (plane_id + 1)\<rparr>"

text \<open>\<^verbatim>\<open>for i in range(1, 7): event_status[i] = 0\<close>\<close>

definition reset_event_status :: "u32 list \<Rightarrow> u32 list" where
  "reset_event_status es = foldl (\<lambda>es i. es[i := 0]) es [1..<7]"

text \<open>A further word of a row (\<^verbatim>\<open>n_words[plane_id] > 0\<close>): a column word.\<close>

definition column_word :: "u32 \<Rightarrow> int \<Rightarrow> nat \<Rightarrow> state \<Rightarrow> state \<times> hit list" where
  "column_word word plane_id p s =
     (let s1 = s\<lparr>n_words := (n_words s)[p := word_of_int (uint (n_words s ! p) - 1)]\<rparr>;
          n_hits = get_n_hits word;
          column = get_column word;
          s2 = (if column \<ge> 1152
                then s1\<lparr>event_status :=
                          add_event_status (nat (plane_id + 1)) (event_status s1) COL_ERROR\<rparr>
                else s1);
          hits = map (m26_hit plane_id p s2 column) [0..n_hits]
      in (s2\<lparr>event_status := reset_event_status (event_status s2)\<rparr>, hits))"

text \<open>The branch \<^verbatim>\<open>else:  # Correct M26 data\<close>, dispatching on the incremented word index.\<close>

definition data_word :: "u32 \<Rightarrow> int \<Rightarrow> nat \<Rightarrow> state \<Rightarrow> state \<times> hit list" where
  "data_word word plane_id p s0 =
     (let q = nat (plane_id + 1);
          s = s0\<lparr>word_index := (word_index s0)[p := word_of_int (sint (word_index s0 ! p) + 1)]\<rparr>;
          wi = sint (word_index s ! p);
          fl = sint (frame_length s ! p)
      in if wi = 1 then
           (let s1 = (if get_m26_timestamp_high word < (uint (m26_timestamps s ! p) AND 0xffff0000)
                      then s\<lparr>event_status := add_event_status q (event_status s) TS_OVERFLOW\<rparr>
                      else s)
            in (s1\<lparr>m26_timestamps := (m26_timestamps s1)[p :=
                      word_of_int (get_m26_timestamp_high word
                                   OR (uint (m26_timestamps s1 ! p) AND 0x0000ffff))]\<rparr>, []))
         else if wi = 2 then
           (s\<lparr>frame_id := (frame_id s)[q :=
                 word_of_int (get_frame_id_low word OR (uint (frame_id s ! q) AND 0xffff0000))]\<rparr>, [])
         else if wi = 3 then
           (s\<lparr>frame_id := (frame_id s)[q :=
                 word_of_int (get_frame_id_high word OR (uint (frame_id s ! q) AND 0x0000ffff))]\<rparr>, [])
         else if wi = 4 then
           (s\<lparr>frame_length := (frame_length s)[p := word_of_int (get_frame_length word)]\<rparr>, [])
         else if wi = 5 then
           (if fl \<noteq> get_frame_length word
            then (s\<lparr>event_status := add_event_status q (event_status s) EVENT_INCOMPLETE\<rparr>, [])
            else (s, []))
         else if wi = 5 + fl + 1 then
           (if \<not> is_frame_trailer0 word
            then (s\<lparr>event_status := add_event_status q (event_status s) TRAILER_H_ERROR\<rparr>, [])
            else (s, []))
         else if wi = 5 + fl + 2 then
           (if \<not> is_frame_trailer1 word (plane_id + 1)
            then (s\<lparr>event_status := add_event_status q (event_status s) TRAILER_L_ERROR\<rparr>, [])
            else (s, []))
         else if wi > 5 + fl + 2 then
           (s\<lparr>m26_data_loss := (m26_data_loss s)[p := True]\<rparr>, [])
         else if uint (n_words s ! p) = 0 then (row_word word p q s, [])
         else column_word word plane_id p s)"

text \<open>A Mimosa26 word. Each of the three branches first indexes an array of shape 6 with
  \<^verbatim>\<open>plane_id\<close>; for a plane number above 6 this access is outside the array, before anything
  else is done with the word.\<close>

definition m26_word :: "u32 \<Rightarrow> state \<Rightarrow> error + (state \<times> hit list)" where
  "m26_word word s =
     (let plane_id = get_plane_number word - 1
      in case py_index plane_id 6 of
           None \<Rightarrow> Inl OutOfBounds
         | Some p \<Rightarrow>
             if is_data_loss word
             then Inr (s\<lparr>m26_data_loss := (m26_data_loss s)[p := True]\<rparr>, [])
             else if is_frame_header word then Inr (frame_header_word word plane_id p s, [])
             else if m26_data_loss s ! p then Inr (s, [])
             else Inr (data_word word plane_id p s))"

text \<open>A TLU word. \<open>ltn\<close> is the local variable \<^verbatim>\<open>last_trigger_number\<close>; the result carries its
  new value.\<close>

definition trigger_timestamp_of :: "u32 \<Rightarrow> u32 \<Rightarrow> int" where
  "trigger_timestamp_of word last_ts =
     (let tt = get_trigger_timestamp word OR (uint last_ts AND 0xffff8000)
      in if tt < uint last_ts then tt + 2 ^ 15 else tt)"

definition delta_timestamp_of :: "int \<Rightarrow> u32 \<Rightarrow> int" where
  "delta_timestamp_of tt last_ts =
     (if tt < uint last_ts then tt + (2 ^ 32 - uint last_ts) else tt - uint last_ts)"

definition trigger_word :: "int \<Rightarrow> u32 \<Rightarrow> state \<Rightarrow> int \<Rightarrow> state \<times> int \<times> hit list" where
  "trigger_word tdf word s ltn =
     (let es0 = add_event_status 0 ((event_status s)[0 := 0]) TRG_WORD;
          trigger_number_tmp = get_trigger_number word tdf;
          es1 = (if ltn \<ge> 0 \<and> trigger_number s \<ge> 0 \<and>
                    ltn + 1 \<noteq> trigger_number_tmp \<and> trigger_number_tmp > 0
                 then add_event_status 0 es0 TRG_ERROR else es0);
          ltn' = trigger_number s;
          tt = trigger_timestamp_of word (last_m26_timestamps s);
          delta_timestamp = delta_timestamp_of tt (last_m26_timestamps s);
          fid = (frame_id s)[0 :=
                  word_of_int (uint (last_frame_id s) + delta_timestamp div FRAME_UNIT_CYCLE)];
          h = \<lparr>hit_plane = 255,
               hit_frame = fid ! 0,
               hit_time_stamp = word_of_int tt,
               hit_trigger_number = word_of_int trigger_number_tmp,
               hit_column = 0,
               hit_row = word_of_int (delta_timestamp mod FRAME_UNIT_CYCLE),
               hit_event_status = es1 ! 0\<rparr>
      in (s\<lparr>event_status := es1, trigger_number := trigger_number_tmp,
             trigger_timestamp := tt, frame_id := fid\<rparr>, ltn', [h]))"

text \<open>One iteration of \<^verbatim>\<open>for raw_i in range(raw_data.shape[0])\<close>.\<close>

definition interpret_word ::
  "int \<Rightarrow> u32 \<Rightarrow> state \<times> int \<Rightarrow> error + ((state \<times> int) \<times> hit list)" where
  "interpret_word tdf word sl =
     (let s = fst sl; ltn = snd sl
      in if is_mimosa_data word then
           (case m26_word word s of
              Inl e \<Rightarrow> Inl e
            | Inr (s', hs) \<Rightarrow> Inr ((s', ltn), hs))
         else if is_trigger_word word then
           (case trigger_word tdf word s ltn of (s', ltn', hs) \<Rightarrow> Inr ((s', ltn'), hs))
         else Inr ((s\<lparr>event_status := add_event_status 0 (event_status s) UNKNOWN_WORD\<rparr>, ltn), []))"

text \<open>The loop over the raw data; \<open>hits\<close> are the hits stored so far.\<close>

fun loop :: "int \<Rightarrow> u32 list \<Rightarrow> state \<times> int \<Rightarrow> hit list \<Rightarrow> error + ((state \<times> int) \<times> hit list)" where
  "loop tdf [] sl hits = Inr (sl, hits)"
| "loop tdf (word # raw_data) sl hits =
     (case interpret_word tdf word sl of
        Inl e \<Rightarrow> Inl e
      | Inr (sl', hs) \<Rightarrow> loop tdf raw_data sl' (hits @ hs))"

text \<open>\<^verbatim>\<open>build_hits\<close>: the hits of the chunk and the variables to buffer.\<close>

definition init_last_trigger_number :: "state \<Rightarrow> int" where
  "init_last_trigger_number s = (if trigger_number s \<le> 0 then - 1 else trigger_number s - 1)"

definition build_hits :: "u32 list \<Rightarrow> state \<Rightarrow> int \<Rightarrow> error + (hit list \<times> state)" where
  "build_hits raw_data s tdf =
     (case loop tdf raw_data (s, init_last_trigger_number s) [] of
        Inl e \<Rightarrow> Inl e
      | Inr ((s', ltn), hits) \<Rightarrow> Inr (hits, s'))"

section \<open>The interpreter object\<close>

record interpreter =
  max_hits_per_chunk :: int
  trigger_data_format :: int
  tlu_word_index :: "u32 list"
  buffers :: state

definition reset :: state where
  "reset =
     \<lparr>frame_id = replicate 7 0,
      last_frame_id = 0,
      frame_length = replicate 6 (word_of_int (- 1)),
      m26_data_loss = replicate 6 False,
      word_index = replicate 6 0,
      n_words = replicate 6 0,
      row = replicate 6 (word_of_int (- 1)),
      event_status = replicate 7 0,
      event_number = replicate 6 (- 1),
      trigger_number = - 1,
      m26_timestamps = replicate 6 0,
      trigger_timestamp = 0,
      last_m26_timestamps = 0,
      last_trigger_timestamp = 0\<rparr>"

text \<open>\<^verbatim>\<open>RawDataInterpreter.__init__\<close> stores its two arguments and resets the buffers.\<close>

definition RawDataInterpreter :: "int \<Rightarrow> int \<Rightarrow> interpreter" where
  "RawDataInterpreter mhpc tdf =
     \<lparr>max_hits_per_chunk = mhpc, trigger_data_format = tdf,
      tlu_word_index = replicate 6 0, buffers = reset\<rparr>"

definition interpret_raw_data :: "interpreter \<Rightarrow> u32 list \<Rightarrow> error + (hit list \<times> interpreter)" where
  "interpret_raw_data self raw_data =
     (case build_hits raw_data (buffers self) (trigger_data_format self) of
        Inl e \<Rightarrow> Inl e
      | Inr (hits, s') \<Rightarrow> Inr (hits, self\<lparr>buffers := s'\<rparr>))"

text \<open>Feeding chunks one after another to one interpreter, the hits concatenated.\<close>

fun interpret_chunks :: "interpreter \<Rightarrow> u32 list list \<Rightarrow> error + (hit list \<times> interpreter)" where
  "interpret_chunks self [] = Inr ([], self)"
| "interpret_chunks self (chunk # chunks) =
     (case interpret_raw_data self chunk of
        Inl e \<Rightarrow> Inl e
      | Inr (hits, self') \<Rightarrow>
          (case interpret_chunks self' chunks of
             Inl e \<Rightarrow> Inl e
           | Inr (hits', self'') \<Rightarrow> Inr (hits @ hits', self'')))"

section \<open>The constructor of \<^verbatim>\<open>DataInterpreter\<close>\<close>

text \<open>
  \<^verbatim>\<open>DataInterpreter.__init__\<close> with its arguments \<^verbatim>\<open>chunk_size\<close> and \<^verbatim>\<open>trigger_data_format\<close>:
  it raises \<^verbatim>\<open>RuntimeError\<close> for a chunk size below 100, constructs the
  \<^verbatim>\<open>RawDataInterpreter\<close> (with its default \<^verbatim>\<open>max_hits_per_chunk\<close>), and then, for a trigger data
  format other than 2, logs a warning and executes a bare \<^verbatim>\<open>raise\<close>, which is a
  \<^verbatim>\<open>RuntimeError\<close> as no exception is active; otherwise \<^verbatim>\<open>set_standard_settings\<close> follows. The file
  names, the PDF file, the event builder and the table filter play no part in the statements
  and are left out.
\<close>

record data_interpreter =
  raw_data_interpreter :: interpreter
  chunk_size :: int
  data_trigger_data_format :: int
  create_occupancy_hist :: bool
  create_error_hist :: bool
  create_hit_table :: bool

definition DataInterpreter :: "int \<Rightarrow> int \<Rightarrow> error + data_interpreter" where
  "DataInterpreter cs tdf =
     (if cs < 100 then Inl RuntimeError
      else let rdi = RawDataInterpreter 500000 tdf
           in if tdf \<noteq> 2 then Inl RuntimeError
              else Inr \<lparr>raw_data_interpreter = rdi, chunk_size = cs,
                        data_trigger_data_format = tdf, create_occupancy_hist = True,
                        create_error_hist = True, create_hit_table = False\<rparr>)"

section \<open>Notions used in the statements\<close>

text \<open>The hit of a TLU word on an interpreter that has not seen a Mimosa26 frame yet.\<close>

definition tlu_hit :: "u16 \<Rightarrow> u32 \<Rightarrow> hit" where
  "tlu_hit n es =
     \<lparr>hit_plane = 255, hit_frame = 0, hit_time_stamp = 0, hit_trigger_number = n,
      hit_column = 0, hit_row = 0, hit_event_status = es\<rparr>"

text \<open>The trigger time stamp in the words of the specification:
  \<open>((word >> 16) & 0x7FFF) | (last_m26_timestamps & 0xFFFF8000)\<close>, with \<open>2^15\<close> added once if
  that value is below \<^verbatim>\<open>last_m26_timestamps\<close>.\<close>

definition claimed_trigger_timestamp :: "u32 \<Rightarrow> u32 \<Rightarrow> int" where
  "claimed_trigger_timestamp word last_ts =
     (let v = ((drop_bit 16 (uint word)) AND 0x7FFF) OR (uint last_ts AND 0xFFFF8000)
      in if v < uint last_ts then v + 2 ^ 15 else v)"

text \<open>The value of \<^verbatim>\<open>word_index[plane_id]\<close> after \<^verbatim>\<open>word_index[plane_id] += 1\<close>.\<close>

definition incremented_word_index :: "nat \<Rightarrow> state \<Rightarrow> int" where
  "incremented_word_index p s = sint (word_of_int (sint (word_index s ! p) + 1) :: i32)"

text \<open>The conditions under which a Mimosa26 word reaches the branch
  \<^verbatim>\<open>else:  # Column / Row words\<close>: no data loss flag, no frame start flag, the plane not in loss
  mode, and none of the earlier tests on the incremented word index succeeds.\<close>

definition pixel_word_position :: "u32 \<Rightarrow> nat \<Rightarrow> state \<Rightarrow> bool" where
  "pixel_word_position word p s \<longleftrightarrow>
     \<not> is_data_loss word \<and> \<not> is_frame_header word \<and> \<not> m26_data_loss s ! p \<and>
     (let wi = incremented_word_index p s; fl = sint (frame_length s ! p)
      in wi \<noteq> 1 \<and> wi \<noteq> 2 \<and> wi \<noteq> 3 \<and> wi \<noteq> 4 \<and> wi \<noteq> 5 \<and> wi < 5 + fl + 1)"

text \<open>A word that keeps every access within the arrays: any word that is not a Mimosa26
  word, and a Mimosa26 word with a plane field of at most 6.\<close>

definition in_bounds :: "u32 \<Rightarrow> bool" where
  "in_bounds word \<longleftrightarrow> (if is_mimosa_data word then get_plane_number word \<le> 6 else True)"

text \<open>The hits of a run of the loop, word by word.\<close>

fun hits_by_word :: "int \<Rightarrow> u32 list \<Rightarrow> state \<times> int \<Rightarrow> error + hit list list" where
  "hits_by_word tdf [] sl = Inr []"
| "hits_by_word tdf (word # raw_data) sl =
     (case interpret_word tdf word sl of
        Inl e \<Rightarrow> Inl e
      | Inr (sl', hs) \<Rightarrow>
          (case hits_by_word tdf raw_data sl' of
             Inl e \<Rightarrow> Inl e
           | Inr hss \<Rightarrow> Inr (hs # hss)))"

text \<open>Hit number \<open>j\<close> of the group of a column word, from the state before the word.\<close>

definition group_hit :: "u32 \<Rightarrow> nat \<Rightarrow> state \<Rightarrow> int \<Rightarrow> hit" where
  "group_hit word p s j =
     \<lparr>hit_plane = word_of_int (get_plane_number word),
      hit_frame = frame_id s ! nat (get_plane_number word),
      hit_time_stamp = m26_timestamps s ! p,
      hit_trigger_number = (if trigger_number s < 0 then 0 else word_of_int (trigger_number s)),
      hit_column = word_of_int (get_column word + j),
      hit_row = word_of_int (sint (row s ! p)),
      hit_event_status =
        (if get_column word \<ge> 1152 then event_status s ! nat (get_plane_number word) OR COL_ERROR
         else event_status s ! nat (get_plane_number word))\<rparr>"

text \<open>A state inside the pixel words of a frame of plane 1 (frame length 4, word index 6,
  row 50 latched, one column word outstanding).\<close>

definition in_row_state :: state where
  "in_row_state =
     reset\<lparr>word_index := [6, 0, 0, 0, 0, 0],
           frame_length := [4, - 1, - 1, - 1, - 1, - 1],
           n_words := [1, 0, 0, 0, 0, 0],
           row := [50, - 1, - 1, - 1, - 1, - 1]\<rparr>"



text \<open>No status slot of a plane (slots 1 to 6) holds \<^verbatim>\<open>UNKNOWN_WORD\<close>; the status of a hit is
  as the amended claim C10 says; both hold for the result of a step.\<close>

definition planes_free_of_unknown :: "u32 list \<Rightarrow> bool" where
  "planes_free_of_unknown es \<longleftrightarrow> (\<forall>q < length es. q = 0 \<or> es ! q AND UNKNOWN_WORD = 0)"

definition hit_status_ok :: "hit \<Rightarrow> bool" where
  "hit_status_ok h \<longleftrightarrow>
     (if hit_plane h = 255
      then hit_event_status h = TRG_WORD \<or> hit_event_status h = TRG_WORD OR TRG_ERROR
      else hit_plane h = 0 \<or> hit_event_status h AND UNKNOWN_WORD = 0)"

definition step_ok :: "state \<times> hit list \<Rightarrow> bool" where
  "step_ok r \<longleftrightarrow>
     shapes (fst r) \<and> planes_free_of_unknown (event_status (fst r)) \<and> list_all hit_status_ok (snd r)"


section \<open>Scenarios evaluated on the code\<close>

lemma shapes_reset: "shapes reset"
  by code_simp

lemma event_status_reset: "event_status reset = [0, 0, 0, 0, 0, 0, 0]"
  by code_simp

lemma empty_frame_build_hits:
  "build_hits
     [0x20015555, 0x20015551, 0x20010001, 0x20010000,
      0x20010000, 0x20010000, 0x2001AA50, 0x2001AA51] reset 2
   = Inr ([], reset\<lparr>m26_timestamps := [0, 0, 0, 0, 0, 0xAA51]\<rparr>)"
  by code_simp

text \<open>
  Claim C9. Feeding the eight words of the scenario ``single empty frame'' to a freshly
  constructed interpreter (trigger data format 2; \<^verbatim>\<open>max_hits_per_chunk\<close>, meant positive, only
  sizes the hit buffer and does not enter the model) returns no hit
  and leaves all seven slots of \<^verbatim>\<open>event_status\<close> at zero. (The plane field, bits 23..20, of
  these words is 0 and bit 16 is set in each of them: every word takes the frame header
  branch with \<^verbatim>\<open>plane_id = -1\<close>, which indexes the last element of the arrays.)
\<close>

theorem single_empty_frame:
  "\<exists>self'. interpret_raw_data (RawDataInterpreter mhpc 2)
             [0x20015555, 0x20015551, 0x20010001, 0x20010000,
              0x20010000, 0x20010000, 0x2001AA50, 0x2001AA51] = Inr ([], self')
           \<and> event_status (buffers self') = [0, 0, 0, 0, 0, 0, 0]"
  by (simp add: interpret_raw_data_def RawDataInterpreter_def empty_frame_build_hits
      event_status_reset)

text \<open>
  Claim C1 (chunking invariance) fails on the code. The local variable
  \<^verbatim>\<open>last_trigger_number\<close> is not among the buffered variables: every call of \<^verbatim>\<open>build_hits\<close>
  sets it anew, to \<^verbatim>\<open>trigger_number - 1\<close>. The stream of the two trigger words with the numbers 1
  and 2 gives two hits without \<^verbatim>\<open>TRG_ERROR\<close> when fed whole, and a second hit with
  \<^verbatim>\<open>TRG_ERROR\<close> (status \<open>0x4040\<close>) when fed as two chunks of one word.
\<close>

theorem chunking_changes_trigger_status:
  "map_sum id fst (interpret_raw_data (RawDataInterpreter 500000 2) [0x80000001, 0x80000002])
     = Inr [tlu_hit 1 0x4000, tlu_hit 2 0x4000]
   \<and> map_sum id fst (interpret_chunks (RawDataInterpreter 500000 2) [[0x80000001], [0x80000002]])
     = Inr [tlu_hit 1 0x4000, tlu_hit 2 0x4040]"
  by code_simp

text \<open>
  Claim C3 (no \<^verbatim>\<open>TRG_ERROR\<close> on trigger numbers increasing by one) fails on the code. Within
  one call \<^verbatim>\<open>last_trigger_number\<close> holds the trigger number two words back, so the third of
  the trigger words with the numbers 1, 2, 3 is compared with \<open>1 + 1\<close> and its hit carries
  \<^verbatim>\<open>TRG_ERROR\<close> (status \<open>0x4040\<close>).
\<close>

theorem consecutive_triggers_flagged:
  "map_sum id fst
     (interpret_raw_data (RawDataInterpreter 500000 2) [0x80000001, 0x80000002, 0x80000003])
   = Inr [tlu_hit 1 0x4000, tlu_hit 2 0x4000, tlu_hit 3 0x4040]"
  by code_simp

section \<open>Properties of single words\<close>

lemma trigger_not_mimosa: "is_trigger_word word \<Longrightarrow> \<not> is_mimosa_data word"
proof
  assume a: "is_trigger_word word" and b: "is_mimosa_data word"
  from a have "bit (0x80000000 AND uint word) 31" by (simp add: is_trigger_word_def)
  hence "bit (uint word) 31" by (simp add: bit_and_iff)
  moreover from b have "bit (0xff000000 AND uint word) 31 = bit (0x20000000::int) 31"
    by (simp add: is_mimosa_data_def)
  ultimately show False by (simp add: bit_and_iff)
qed

lemma get_trigger_timestamp_alt:
  "get_trigger_timestamp word = (drop_bit 16 (uint word)) AND 0x7FFF"
proof -
  have "drop_bit 16 (0x7fff0000 :: int) = 0x7fff" by simp
  thus ?thesis unfolding get_trigger_timestamp_def
    by (simp add: drop_bit_and del: drop_bit_numeral_bit0) 
qed

lemma trigger_timestamp_of_claimed:
  "trigger_timestamp_of word last_ts = claimed_trigger_timestamp word last_ts"
  by (simp add: trigger_timestamp_of_def claimed_trigger_timestamp_def get_trigger_timestamp_alt)

lemma mod_4608_u16: "uint (word_of_int (d mod 4608) :: u16) = d mod 4608"
proof -
  have "0 \<le> d mod 4608" "d mod 4608 < 4608" by simp_all
  hence "take_bit 16 (d mod 4608) = d mod 4608"
    by (intro take_bit_int_eq_self) simp_all
  thus ?thesis by (simp add: uint_word_of_int_eq)
qed

lemma high_mask: "(0xffff8000 :: int) = push_bit 15 (mask 17)"
  by (simp add: mask_eq_exp_minus_1 push_bit_eq_mult)

lemma high_part: "uint (l :: u32) AND 0xffff8000 = push_bit 15 (drop_bit 15 (uint l))"
proof (rule bit_eqI)
  fix n
  have "bit (uint l) n \<Longrightarrow> n < 32"
    using bit_imp_le_length[of l n] by (simp add: bit_uint_iff)
  thus "bit (uint l AND 0xffff8000) n = bit (push_bit 15 (drop_bit 15 (uint l))) n"
    unfolding high_mask by (auto simp: bit_and_iff bit_push_bit_iff bit_mask_iff bit_drop_bit_eq)
qed

lemma ts15: "0 \<le> get_trigger_timestamp word" "get_trigger_timestamp word < 2 ^ 15"
proof -
  have "get_trigger_timestamp word = take_bit 15 (drop_bit 16 (uint word))"
    by (simp add: get_trigger_timestamp_alt take_bit_eq_mask mask_eq_exp_minus_1)
  thus "0 \<le> get_trigger_timestamp word" "get_trigger_timestamp word < 2 ^ 15"
    using take_bit_int_less_exp[of 15 "drop_bit 16 (uint word)"] by simp_all
qed

lemma or_high: "get_trigger_timestamp word OR push_bit 15 k = get_trigger_timestamp word + push_bit 15 k"
proof -
  have t: "get_trigger_timestamp word = take_bit 15 (drop_bit 16 (uint word))"
    by (simp add: get_trigger_timestamp_alt take_bit_eq_mask mask_eq_exp_minus_1)
  have "take_bit 15 (drop_bit 16 (uint word)) + push_bit 15 k
          = take_bit 15 (drop_bit 16 (uint word)) OR push_bit 15 k"
    by (rule disjunctive_add) (auto simp: bit_take_bit_iff bit_push_bit_iff)
  thus ?thesis by (simp add: t)
qed

lemma trigger_timestamp_after_last:
  "uint last_ts \<le> trigger_timestamp_of word last_ts"
  "trigger_timestamp_of word last_ts - uint last_ts < 2 ^ 15"
proof -
  define h where "h = push_bit 15 (drop_bit 15 (uint last_ts))"
  define l where "l = take_bit 15 (uint last_ts)"
  have L: "uint last_ts = h + l" unfolding h_def l_def by (simp add: bits_ident)
  have l: "0 \<le> l" "l < 2 ^ 15"
    unfolding l_def using take_bit_int_less_exp[of 15 "uint last_ts"] by simp_all
  have tt: "get_trigger_timestamp word OR (uint last_ts AND 0xffff8000)
              = get_trigger_timestamp word + h"
    unfolding high_part h_def by (rule or_high)
  have eq: "trigger_timestamp_of word last_ts
              = (if get_trigger_timestamp word + h < uint last_ts
                 then get_trigger_timestamp word + h + 2 ^ 15
                 else get_trigger_timestamp word + h)"
    by (simp add: trigger_timestamp_of_def Let_def tt)
  show "uint last_ts \<le> trigger_timestamp_of word last_ts"
    "trigger_timestamp_of word last_ts - uint last_ts < 2 ^ 15"
    unfolding eq using ts15[of word] l L by simp_all
qed

lemma py_index_6: "py_index i 6 = Some p \<Longrightarrow> p < 6"
  by (auto simp: py_index_def split: if_splits)

lemma get_n_hits_range: "0 \<le> get_n_hits word" "get_n_hits word \<le> 3"
  by (simp_all add: get_n_hits_def AND_upper1)

lemma get_column_range: "0 \<le> get_column word" "get_column word \<le> 2047"
  by (simp_all add: get_column_def AND_upper2)

lemma get_plane_number_range: "0 \<le> get_plane_number word" "get_plane_number word \<le> 15"
  by (simp_all add: get_plane_number_def AND_upper2)

lemma py_index_plane:
  assumes "py_index (get_plane_number word - 1) 6 = Some p"
  shows "p < 6" "nat (get_plane_number word - 1 + 1) = nat (get_plane_number word)"
    "nat (get_plane_number word) < 7"
  using assms get_plane_number_range[of word]
  by (auto simp: py_index_def split: if_splits)

lemma data_word_pixel:
  assumes "shapes s" "p < 6" "pixel_word_position word p s"
  shows "data_word word plane_id p s =
     (let s1 = s\<lparr>word_index := (word_index s)[p := word_of_int (sint (word_index s ! p) + 1)]\<rparr>
      in if uint (n_words s ! p) = 0 then (row_word word p (nat (plane_id + 1)) s1, [])
         else column_word word plane_id p s1)"
  using assms
  by (simp add: data_word_def pixel_word_position_def incremented_word_index_def shapes_def Let_def)

lemma loop_hits_by_word:
  "(case loop tdf raw sl hits0 of
      Inl e \<Rightarrow> hits_by_word tdf raw sl = Inl e
    | Inr (sl', hits) \<Rightarrow> (\<exists>hss. hits_by_word tdf raw sl = Inr hss \<and> hits = hits0 @ concat hss))"
proof (induction raw arbitrary: sl hits0)
  case Nil
  show ?case by simp
next
  case (Cons word raw)
  show ?case
  proof (cases "interpret_word tdf word sl")
    case (Inl e)
    then show ?thesis by simp
  next
    case (Inr r)
    obtain sl' hs where r: "r = (sl', hs)" by (cases r)
    from Cons.IH[of sl' "hits0 @ hs"] Inr r show ?thesis
      by (auto split: sum.splits)
  qed
qed

lemma reset_event_status_length: "length (reset_event_status es) = length es"
  by (simp add: reset_event_status_def upt_rec numeral_eq_Suc) 

lemma reset_event_status_nth:
  assumes "length es = 7"
  shows "reset_event_status es = [es ! 0, 0, 0, 0, 0, 0, 0]"
proof -
  from assms obtain a b c d e f g where "es = [a, b, c, d, e, f, g]"
    by (auto simp: numeral_eq_Suc length_Suc_conv)
  thus ?thesis
    by (simp add: reset_event_status_def upt_rec numeral_eq_Suc)
qed

lemma column_word_hits:
  assumes "shapes s" "py_index (get_plane_number word - 1) 6 = Some p"
  shows "snd (column_word word (get_plane_number word - 1) p s) =
           map (group_hit word p s) [0..get_n_hits word]"
  using assms(1) py_index_plane[OF assms(2)]
  by (simp add: column_word_def Let_def m26_hit_def group_hit_def add_event_status_def shapes_def)

lemma group_hit_word_index:
  "group_hit word p (s\<lparr>word_index := x\<rparr>) = group_hit word p s"
  apply (rule ext)
  apply (simp add: group_hit_def)
  done

lemma column_u16: "uint (word_of_int (get_column word + j) :: u16) = get_column word + j"
  if "0 \<le> j" "j \<le> 3"
proof -
  have "0 \<le> get_column word + j" "get_column word + j < 2 ^ 16"
    using get_column_range[of word] that by simp_all
  hence "take_bit 16 (get_column word + j) = get_column word + j"
    by (intro take_bit_int_eq_self) simp_all
  thus ?thesis by (simp add: uint_word_of_int_eq del: of_int_add)
qed

lemma m26_data_step:
  assumes "is_mimosa_data word" "py_index (get_plane_number word - 1) 6 = Some p"
    "\<not> is_data_loss word" "\<not> is_frame_header word" "\<not> m26_data_loss s ! p"
  shows "interpret_word tdf word (s, ltn) =
           Inr ((fst (data_word word (get_plane_number word - 1) p s), ltn),
                snd (data_word word (get_plane_number word - 1) p s))"
  using assms
  by (cases "data_word word (get_plane_number word - 1) p s")
     (simp add: interpret_word_def m26_word_def Let_def)

lemma pixel_step:
  assumes "shapes s" "is_mimosa_data word" "py_index (get_plane_number word - 1) 6 = Some p"
    "pixel_word_position word p s"
  shows "interpret_word tdf word (s, ltn) =
     (let s1 = s\<lparr>word_index := (word_index s)[p := word_of_int (sint (word_index s ! p) + 1)]\<rparr>
      in if n_words s ! p = 0
         then Inr ((row_word word p (nat (get_plane_number word)) s1, ltn), [])
         else Inr ((fst (column_word word (get_plane_number word - 1) p s1), ltn),
                   map (group_hit word p s) [0..get_n_hits word]))"
proof -
  let ?s1 = "s\<lparr>word_index := (word_index s)[p := word_of_int (sint (word_index s ! p) + 1)]\<rparr>"
  have p: "p < 6" by (rule py_index_plane(1)[OF assms(3)])
  have sh1: "shapes ?s1" using assms(1) by (simp add: shapes_def)
  have flags: "\<not> is_data_loss word" "\<not> is_frame_header word" "\<not> m26_data_loss s ! p"
    using assms(4) by (simp_all add: pixel_word_position_def)
  have hs: "snd (column_word word (get_plane_number word - 1) p ?s1)
          = map (group_hit word p s) [0..get_n_hits word]"
    using column_word_hits[OF sh1 assms(3)] by (simp add: group_hit_word_index)
  show ?thesis
    unfolding m26_data_step[OF assms(2,3) flags] data_word_pixel[OF assms(1) p assms(4)]
    using hs py_index_plane(2)[OF assms(3)]
    by (simp add: Let_def uint_0_iff)
qed

lemma or_and_same: "(e OR c) AND c = (c :: u32)"
  by (rule bit_eqI) (auto simp: bit_and_iff bit_or_iff)

lemma or_and_other: "c AND d = 0 \<Longrightarrow> (e OR c) AND d = e AND (d :: u32)"
  by (simp add: bit.conj_disj_distrib2)

lemma col_row_disjoint: "COL_ERROR AND ROW_ERROR = 0"
  by (simp add: COL_ERROR_def ROW_ERROR_def)

section \<open>TLU words\<close>

text \<open>
  Claim C2. A word with bit 31 set is never a Mimosa26 word, so it is handled as a TLU word,
  and it stores exactly one hit: plane 255, column 0, the time stamp
  \<open>((word >> 16) & 0x7FFF) | (last_m26_timestamps & 0xFFFF8000)\<close> with \<open>2^15\<close> added once when
  that value is below \<^verbatim>\<open>last_m26_timestamps\<close>, the frame \<open>last_frame_id + delta div 4608\<close> and
  the row \<open>delta mod 4608\<close>, which is below 4608; \<open>delta\<close> is the difference of the trigger time
  stamp and \<^verbatim>\<open>last_m26_timestamps\<close>, with \<open>2^32\<close> added when the trigger time stamp is below.
  The fields \<^verbatim>\<open>time_stamp\<close> and \<^verbatim>\<open>frame\<close> hold 32 bits, so the values are stored modulo
  \<open>2^32\<close>. The trigger time stamp is computed on 64-bit integers and is never below
  \<^verbatim>\<open>last_m26_timestamps\<close> after the correction by \<open>2^15\<close>, so \<open>delta\<close> is the plain
  difference, and it is below \<open>2^15\<close>.
\<close>

theorem tlu_hit_fields:
  assumes "is_trigger_word word" and "shapes s"
  shows "(\<exists>s' ltn' h.
           interpret_word tdf word (s, ltn) = Inr ((s', ltn'), [h])
           \<and> hit_plane h = 255 \<and> hit_column h = 0
           \<and> hit_time_stamp h
               = word_of_int (claimed_trigger_timestamp word (last_m26_timestamps s))
           \<and> hit_frame h
               = last_frame_id s
                 + word_of_int (delta_timestamp_of
                     (claimed_trigger_timestamp word (last_m26_timestamps s))
                     (last_m26_timestamps s) div 4608)
           \<and> uint (hit_row h)
               = delta_timestamp_of (claimed_trigger_timestamp word (last_m26_timestamps s))
                   (last_m26_timestamps s) mod 4608
           \<and> uint (hit_row h) < 4608)
         \<and> uint (last_m26_timestamps s)
               \<le> claimed_trigger_timestamp word (last_m26_timestamps s)
         \<and> delta_timestamp_of (claimed_trigger_timestamp word (last_m26_timestamps s))
               (last_m26_timestamps s)
             = claimed_trigger_timestamp word (last_m26_timestamps s)
               - uint (last_m26_timestamps s)
         \<and> delta_timestamp_of (claimed_trigger_timestamp word (last_m26_timestamps s))
               (last_m26_timestamps s) < 2 ^ 15"
proof -
  from assms(2) have len: "0 < length (frame_id s)" "0 < length (event_status s)"
    by (simp_all add: shapes_def)
  have step: "\<exists>s' ltn' h.
           interpret_word tdf word (s, ltn) = Inr ((s', ltn'), [h])
           \<and> hit_plane h = 255 \<and> hit_column h = 0
           \<and> hit_time_stamp h
               = word_of_int (claimed_trigger_timestamp word (last_m26_timestamps s))
           \<and> hit_frame h
               = last_frame_id s
                 + word_of_int (delta_timestamp_of
                     (claimed_trigger_timestamp word (last_m26_timestamps s))
                     (last_m26_timestamps s) div 4608)
           \<and> uint (hit_row h)
               = delta_timestamp_of (claimed_trigger_timestamp word (last_m26_timestamps s))
                   (last_m26_timestamps s) mod 4608
           \<and> uint (hit_row h) < 4608"
    using trigger_not_mimosa[OF assms(1)] assms(1) len
    by (simp add: interpret_word_def trigger_word_def Let_def trigger_timestamp_of_claimed
        FRAME_UNIT_CYCLE_def mod_4608_u16 add_event_status_def)
  note A = trigger_timestamp_after_last[where last_ts = "last_m26_timestamps s" and word = word,
      unfolded trigger_timestamp_of_claimed]
  have d: "delta_timestamp_of (claimed_trigger_timestamp word (last_m26_timestamps s))
               (last_m26_timestamps s)
             = claimed_trigger_timestamp word (last_m26_timestamps s)
               - uint (last_m26_timestamps s)"
    using A(1) by (simp add: delta_timestamp_of_def)
  show ?thesis using step A d by simp
qed

lemma tlu_witness_state:
  "is_trigger_word 0x80000001"
  "shapes (reset\<lparr>last_m26_timestamps := 0xFFFFFFFF, last_frame_id := 7\<rparr>)"
  by code_simp+

theorem tlu_hit_fields_witness:
  "is_trigger_word 0x80000001
   \<and> shapes (reset\<lparr>last_m26_timestamps := 0xFFFFFFFF, last_frame_id := 7\<rparr>)
   \<and> (\<exists>s' ltn' h.
         interpret_word 2 0x80000001
           (reset\<lparr>last_m26_timestamps := 0xFFFFFFFF, last_frame_id := 7\<rparr>, - 1)
           = Inr ((s', ltn'), [h])
         \<and> hit_plane h = 255 \<and> hit_column h = 0 \<and> hit_time_stamp h = 0
         \<and> hit_frame h = 7 \<and> uint (hit_row h) = 1 \<and> uint (hit_row h) < 4608)"
proof -
  have tt: "claimed_trigger_timestamp 0x80000001 0xFFFFFFFF = 0x100000000"
    by code_simp
  have d: "delta_timestamp_of 0x100000000 0xFFFFFFFF = 1"
    by code_simp
  have z: "(0x100000000 :: u32) = 0"
    by simp
  show ?thesis
    using tlu_witness_state
      tlu_hit_fields [OF tlu_witness_state, of 2 "- 1"]
    by (simp add: tt d z)
qed

section \<open>Column words\<close>

text \<open>
  Claim C6. A column word, that is a Mimosa26 word without the data loss and frame start
  flags, for a plane that is not in loss mode, at a position of the pixel words, reached
  while \<^verbatim>\<open>n_words\<close> of the plane is not zero: with \<open>c = (word >> 2) & 0x7FF\<close> and
  \<open>k = word & 0x3\<close> it stores exactly \<open>k + 1\<close> hits, one after the other, with the columns
  \<open>c, c + 1, ..., c + k\<close> in this order; all of them carry the frame, the time stamp, the
  trigger number (0 before the first trigger) and the row of the plane, and the event status
  of the plane as it is at this word (with \<^verbatim>\<open>COL_ERROR\<close> when \<open>c \<ge> 1152\<close>). The hits of a
  chunk are the hits of its words, concatenated in the order of the words.
\<close>

theorem group_expansion_and_order:
  assumes "shapes s" and "is_mimosa_data word"
    and "py_index (get_plane_number word - 1) 6 = Some p"
    and "pixel_word_position word p s" and "n_words s ! p \<noteq> 0"
  shows "(\<exists>s'. interpret_word tdf word (s, ltn)
                 = Inr ((s', ltn), map (group_hit word p s) [0..get_n_hits word]))
         \<and> length (map (group_hit word p s) [0..get_n_hits word]) = nat (get_n_hits word) + 1
         \<and> map (\<lambda>h. uint (hit_column h)) (map (group_hit word p s) [0..get_n_hits word])
             = map (\<lambda>j. get_column word + j) [0..get_n_hits word]
         \<and> (case loop tdf raw sl0 hits0 of
               Inl e \<Rightarrow> hits_by_word tdf raw sl0 = Inl e
             | Inr (sl', hits) \<Rightarrow>
                 (\<exists>hss. hits_by_word tdf raw sl0 = Inr hss \<and> hits = hits0 @ concat hss))"
proof -
  let ?s1 = "s\<lparr>word_index := (word_index s)[p := word_of_int (sint (word_index s ! p) + 1)]\<rparr>"
  have p: "p < 6" by (rule py_index_plane(1)[OF assms(3)])
  have sh1: "shapes ?s1" using assms(1) by (simp add: shapes_def)
  have nz: "uint (n_words s ! p) \<noteq> 0" using assms(5) by (simp add: uint_0_iff)
  have dw: "data_word word (get_plane_number word - 1) p s
              = column_word word (get_plane_number word - 1) p ?s1"
    using data_word_pixel[OF assms(1) p assms(4)] nz by (simp add: Let_def)
  have "snd (column_word word (get_plane_number word - 1) p ?s1)
          = map (group_hit word p ?s1) [0..get_n_hits word]"
    by (rule column_word_hits[OF sh1 assms(3)])
  hence hs: "snd (data_word word (get_plane_number word - 1) p s)
          = map (group_hit word p s) [0..get_n_hits word]"
    using dw by (simp add: group_hit_word_index)
  have step: "\<exists>s'. interpret_word tdf word (s, ltn)
                 = Inr ((s', ltn), map (group_hit word p s) [0..get_n_hits word])"
    using assms(2,3,4) hs
    by (cases "data_word word (get_plane_number word - 1) p s")
       (simp add: interpret_word_def m26_word_def pixel_word_position_def Let_def)
  have len: "length (map (group_hit word p s) [0..get_n_hits word]) = nat (get_n_hits word) + 1"
    using get_n_hits_range[of word] by simp
  have cols: "map (\<lambda>h. uint (hit_column h)) (map (group_hit word p s) [0..get_n_hits word])
             = map (\<lambda>j. get_column word + j) [0..get_n_hits word]"
    using get_n_hits_range[of word] by (auto simp: group_hit_def column_u16 simp del: of_int_add)
  show ?thesis using step len cols loop_hits_by_word[of tdf raw sl0 hits0] by blast
qed

lemma column_witness_state:
  "shapes in_row_state"
  "is_mimosa_data 0x20100192"
  "py_index (get_plane_number 0x20100192 - 1) 6 = Some 0"
  "pixel_word_position 0x20100192 0 in_row_state"
  "n_words in_row_state ! 0 \<noteq> 0"
  by code_simp+

theorem group_expansion_and_order_witness:
  "shapes in_row_state \<and> is_mimosa_data 0x20100192
   \<and> py_index (get_plane_number 0x20100192 - 1) 6 = Some 0
   \<and> pixel_word_position 0x20100192 0 in_row_state \<and> n_words in_row_state ! 0 \<noteq> 0
   \<and> (\<exists>s'. interpret_word 2 0x20100192 (in_row_state, - 1)
              = Inr ((s', - 1), map (group_hit 0x20100192 0 in_row_state) [0..2]))
   \<and> map (\<lambda>h. uint (hit_column h)) (map (group_hit 0x20100192 0 in_row_state) [0..2])
       = map (\<lambda>j. 100 + j) [0..2]"
proof -
  have k: "get_n_hits 0x20100192 = 2" and c: "get_column 0x20100192 = 100"
    by code_simp+
  show ?thesis
    using column_witness_state
      group_expansion_and_order [OF column_witness_state, where tdf = 2 and ltn = "- 1"]
    by (simp add: k c)
qed

text \<open>
  Claim C4 fails on the code as stated. The status slots of the planes are cleared after
  every column word, so \<^verbatim>\<open>ROW_ERROR\<close>, set by the row word, reaches only the hits of the first
  column word that follows: in a row 600 with two column words the hit of the second column
  word has row 600 and event status 0.
\<close>

theorem second_column_word_unmarked:
  "map_sum id fst (interpret_raw_data (RawDataInterpreter 500000 2)
     [0x20115555, 0x20105551, 0x20100001, 0x20100000, 0x20100002, 0x20100002,
      0x20102582, 0x20100190, 0x20100320])
   = Inr [\<lparr>hit_plane = 1, hit_frame = 1, hit_time_stamp = 0x55515555, hit_trigger_number = 0,
           hit_column = 100, hit_row = 600, hit_event_status = 0x2000\<rparr>,
          \<lparr>hit_plane = 1, hit_frame = 1, hit_time_stamp = 0x55515555, hit_trigger_number = 0,
           hit_column = 200, hit_row = 600, hit_event_status = 0\<rparr>]"
  by code_simp

text \<open>
  Claim C4, amended. For a plane in 1..6 (and for the plane field 0 alike): a row word
  that leaves a row above 576 latched sets \<^verbatim>\<open>ROW_ERROR\<close> in the status slot of the plane and
  stores no hit. A column word with column field \<open>c\<close> stores its hits with the raw values
  (columns \<open>c, c + 1, ...\<close>, the latched row); each of them has \<^verbatim>\<open>COL_ERROR\<close> set if \<open>c\<close> is 1152
  or more (the test is on \<open>c\<close>, not on the column of the hit) and \<^verbatim>\<open>ROW_ERROR\<close> exactly if it
  is in the status slot of the plane when the column word is processed; afterwards the
  slots 1 to 6 are zero. Nothing is said about a latched row of exactly 576.
\<close>

theorem column_and_row_error_bits:
  assumes "shapes s" and "is_mimosa_data word"
    and "py_index (get_plane_number word - 1) 6 = Some p"
    and "pixel_word_position word p s"
  shows "\<exists>s' hits. interpret_word tdf word (s, ltn) = Inr ((s', ltn), hits)
           \<and> (if n_words s ! p = 0
               then hits = []
                    \<and> (sint (row s' ! p) \<le> 576
                        \<or> event_status s' ! nat (get_plane_number word) AND ROW_ERROR = ROW_ERROR)
               else hits = map (group_hit word p s) [0..get_n_hits word]
                    \<and> (\<forall>h \<in> set hits.
                          (get_column word < 1152 \<or> hit_event_status h AND COL_ERROR = COL_ERROR)
                          \<and> hit_row h = word_of_int (sint (row s ! p))
                          \<and> hit_event_status h AND ROW_ERROR
                              = event_status s ! nat (get_plane_number word) AND ROW_ERROR)
                    \<and> drop 1 (event_status s') = [0, 0, 0, 0, 0, 0])"
proof (cases "n_words s ! p = 0")
  case True
  let ?s1 = "s\<lparr>word_index := (word_index s)[p := word_of_int (sint (word_index s ! p) + 1)]\<rparr>"
  have q: "nat (get_plane_number word) < 7" by (rule py_index_plane(3)[OF assms(3)])
  have "sint (row (row_word word p (nat (get_plane_number word)) ?s1) ! p) \<le> 576
        \<or> event_status (row_word word p (nat (get_plane_number word)) ?s1) ! nat (get_plane_number word)
            AND ROW_ERROR = ROW_ERROR"
    using q assms(1)
    by (simp add: row_word_def Let_def add_event_status_def shapes_def or_and_same)
  thus ?thesis unfolding pixel_step[OF assms] using True by (simp add: Let_def)
next
  case False
  let ?s1 = "s\<lparr>word_index := (word_index s)[p := word_of_int (sint (word_index s ! p) + 1)]\<rparr>"
  have "length (event_status s) = 7" using assms(1) by (simp add: shapes_def)
  hence cleared: "drop 1 (event_status (fst (column_word word (get_plane_number word - 1) p ?s1)))
          = [0, 0, 0, 0, 0, 0]"
    by (simp add: column_word_def Let_def add_event_status_def reset_event_status_nth)
  have hits: "\<forall>h \<in> set (map (group_hit word p s) [0..get_n_hits word]).
                (get_column word < 1152 \<or> hit_event_status h AND COL_ERROR = COL_ERROR)
                \<and> hit_row h = word_of_int (sint (row s ! p))
                \<and> hit_event_status h AND ROW_ERROR
                    = event_status s ! nat (get_plane_number word) AND ROW_ERROR"
    by (auto simp: group_hit_def or_and_same or_and_other col_row_disjoint)
  show ?thesis unfolding pixel_step[OF assms] using False cleared hits by (simp add: Let_def)
qed

theorem column_and_row_error_bits_witness:
  "shapes in_row_state \<and> is_mimosa_data 0x20100192
   \<and> py_index (get_plane_number 0x20100192 - 1) 6 = Some 0
   \<and> pixel_word_position 0x20100192 0 in_row_state
   \<and> (\<exists>s' hits. interpret_word 2 0x20100192 (in_row_state, - 1) = Inr ((s', - 1), hits)
          \<and> hits = map (group_hit 0x20100192 0 in_row_state) [0..2]
          \<and> drop 1 (event_status s') = [0, 0, 0, 0, 0, 0])"
proof -
  have k: "get_n_hits 0x20100192 = 2"
    by code_simp
  show ?thesis
    using column_witness_state
      column_and_row_error_bits [OF column_witness_state(1-4), where tdf = 2 and ltn = "- 1"]
    by (auto simp: k)
qed

section \<open>Trailer and loss mode\<close>








section \<open>The event status of the hits of a run\<close>

lemmas status_codes = EVENT_INCOMPLETE_def UNKNOWN_WORD_def UNEVEN_EVENT_def TRG_ERROR_def
  TRAILER_H_ERROR_def TRAILER_L_ERROR_def MIMOSA_OVERFLOW_def COL_ERROR_def ROW_ERROR_def
  TRG_WORD_def TS_OVERFLOW_def

lemma free_upd:
  assumes "planes_free_of_unknown es" "q = 0 \<or> v AND UNKNOWN_WORD = 0"
  shows "planes_free_of_unknown (es[q := v])"
  unfolding planes_free_of_unknown_def
proof (intro allI impI)
  fix i assume "i < length (es[q := v])"
  hence i: "i < length es" by simp
  show "i = 0 \<or> es[q := v] ! i AND UNKNOWN_WORD = 0"
  proof (cases "i = q")
    case True
    with i assms(2) show ?thesis by auto
  next
    case False
    with i assms(1) show ?thesis by (simp add: planes_free_of_unknown_def)
  qed
qed

lemma free_add:
  assumes "planes_free_of_unknown es" "c AND UNKNOWN_WORD = 0"
  shows "planes_free_of_unknown (add_event_status q es c)"
proof (cases "q < length es")
  case True
  with assms have "q = 0 \<or> (es ! q OR c) AND UNKNOWN_WORD = 0"
    by (auto simp: planes_free_of_unknown_def bit.conj_disj_distrib2)
  thus ?thesis unfolding add_event_status_def by (rule free_upd[OF assms(1)])
next
  case False
  hence "es[q := es ! q OR c] = es" by (simp add: list_update_beyond)
  thus ?thesis using assms(1) by (simp add: add_event_status_def)
qed

lemma free_add_0: "planes_free_of_unknown es \<Longrightarrow> planes_free_of_unknown (add_event_status 0 es c)"
  unfolding add_event_status_def by (rule free_upd) simp_all

lemma free_upd_0: "planes_free_of_unknown es \<Longrightarrow> planes_free_of_unknown (es[0 := c])"
  by (rule free_upd) simp_all

lemma free_reset: "length es = 7 \<Longrightarrow> planes_free_of_unknown (reset_event_status es)"
  by (auto simp: planes_free_of_unknown_def reset_event_status_nth nth_Cons' )

lemma add_event_status_length [simp]: "length (add_event_status q es c) = length es"
  by (simp add: add_event_status_def)

lemma codes_free:
  "TS_OVERFLOW AND UNKNOWN_WORD = 0" "EVENT_INCOMPLETE AND UNKNOWN_WORD = 0"
  "TRAILER_H_ERROR AND UNKNOWN_WORD = 0" "TRAILER_L_ERROR AND UNKNOWN_WORD = 0"
  "UNEVEN_EVENT AND UNKNOWN_WORD = 0" "MIMOSA_OVERFLOW AND UNKNOWN_WORD = 0"
  "ROW_ERROR AND UNKNOWN_WORD = 0" "COL_ERROR AND UNKNOWN_WORD = 0"
  by (simp_all add: status_codes)

lemma frame_header_word_inv:
  assumes "shapes s" "planes_free_of_unknown (event_status s)"
  shows "shapes (frame_header_word word plane_id p s)
         \<and> planes_free_of_unknown (event_status (frame_header_word word plane_id p s))"
  using assms by (simp add: frame_header_word_def Let_def shapes_def)

lemma row_word_inv:
  assumes "shapes s" "planes_free_of_unknown (event_status s)"
  shows "shapes (row_word word p q s)
         \<and> planes_free_of_unknown (event_status (row_word word p q s))"
  using assms by (simp add: row_word_def Let_def shapes_def free_add codes_free)

lemma plane_u8:
  assumes "0 \<le> n" "n \<le> 6"
  shows "(word_of_int n :: u8) \<noteq> 255" "(word_of_int n :: u8) = 0 \<longleftrightarrow> n = 0"
proof -
  have "take_bit 8 n = n" using assms by (intro take_bit_int_eq_self) simp_all
  hence u: "uint (word_of_int n :: u8) = n" by (simp add: uint_word_of_int_eq)
  show "(word_of_int n :: u8) \<noteq> 255"
  proof
    assume "(word_of_int n :: u8) = 255"
    hence "uint (word_of_int n :: u8) = uint (255 :: u8)" by simp
    with u assms show False by simp
  qed
  show "(word_of_int n :: u8) = 0 \<longleftrightarrow> n = 0"
  proof
    assume "(word_of_int n :: u8) = 0"
    hence "uint (word_of_int n :: u8) = uint (0 :: u8)" by simp
    with u show "n = 0" by simp
  qed simp
qed

lemma column_word_inv:
  assumes "shapes s" "planes_free_of_unknown (event_status s)"
    "py_index (get_plane_number word - 1) 6 = Some p"
  shows "shapes (fst (column_word word (get_plane_number word - 1) p s))
         \<and> planes_free_of_unknown (event_status (fst (column_word word (get_plane_number word - 1) p s)))
         \<and> list_all hit_status_ok (snd (column_word word (get_plane_number word - 1) p s))"
proof -
  have q: "nat (get_plane_number word) < 7" by (rule py_index_plane(3)[OF assms(3)])
  have pn: "0 \<le> get_plane_number word" "get_plane_number word \<le> 6"
    using q get_plane_number_range[of word] by simp_all
  have len: "length (event_status s) = 7" using assms(1) by (simp add: shapes_def)
  have sh: "shapes (fst (column_word word (get_plane_number word - 1) p s))"
    using assms(1) by (simp add: column_word_def Let_def shapes_def reset_event_status_length)
  have fr: "planes_free_of_unknown (event_status (fst (column_word word (get_plane_number word - 1) p s)))"
    using len by (simp add: column_word_def Let_def free_reset)
  have slot: "get_plane_number word = 0 \<or> event_status s ! nat (get_plane_number word) AND UNKNOWN_WORD = 0"
    using assms(2) q len pn by (auto simp: planes_free_of_unknown_def)
  have "list_all hit_status_ok (map (group_hit word p s) [0..get_n_hits word])"
    using slot plane_u8[OF pn]
    by (auto simp: list_all_iff hit_status_ok_def group_hit_def bit.conj_disj_distrib2 codes_free)
  thus ?thesis using sh fr column_word_hits[OF assms(1,3)] by simp
qed

lemma shapes_lengths:
  assumes "shapes s"
  shows "length (frame_id s) = 7" "length (frame_length s) = 6" "length (m26_data_loss s) = 6"
    "length (word_index s) = 6" "length (n_words s) = 6" "length (row s) = 6"
    "length (event_status s) = 7" "length (m26_timestamps s) = 6"
  using assms by (simp_all add: shapes_def)

lemma shapes_updates:
  "shapes s \<Longrightarrow> length (a :: u32 list) = 7 \<Longrightarrow> shapes (s\<lparr>event_status := a\<rparr>)"
  "shapes s \<Longrightarrow> length (b :: u32 list) = 6 \<Longrightarrow> shapes (s\<lparr>m26_timestamps := b\<rparr>)"
  "shapes s \<Longrightarrow> length (c :: u32 list) = 7 \<Longrightarrow> shapes (s\<lparr>frame_id := c\<rparr>)"
  "shapes s \<Longrightarrow> length (d :: i32 list) = 6 \<Longrightarrow> shapes (s\<lparr>frame_length := d\<rparr>)"
  "shapes s \<Longrightarrow> length (e :: bool list) = 6 \<Longrightarrow> shapes (s\<lparr>m26_data_loss := e\<rparr>)"
  "shapes s \<Longrightarrow> length (f :: i32 list) = 6 \<Longrightarrow> shapes (s\<lparr>word_index := f\<rparr>)"
  by (simp_all add: shapes_def)

lemma step_ok_if: "step_ok a \<Longrightarrow> step_ok b \<Longrightarrow> step_ok (if c then a else b)"
  by simp

lemma data_word_inv:
  assumes "shapes s" "planes_free_of_unknown (event_status s)"
    "py_index (get_plane_number word - 1) 6 = Some p"
  shows "step_ok (data_word word (get_plane_number word - 1) p s)"
proof -
  define s1 where "s1 = s\<lparr>word_index := (word_index s)[p := word_of_int (sint (word_index s ! p) + 1)]\<rparr>"
  have sh1: "shapes s1" using assms(1) by (simp add: shapes_def s1_def)
  have inv1: "planes_free_of_unknown (event_status s1)" using assms(2) by (simp add: s1_def)
  note R = row_word_inv[OF sh1 inv1, of word p "nat (get_plane_number word - 1 + 1)"]
  note C = column_word_inv[OF sh1 inv1 assms(3)]
  note L = shapes_lengths[OF sh1]
  show ?thesis
    unfolding data_word_def Let_def s1_def[symmetric]
    apply (intro step_ok_if)
    using R C inv1 sh1 L
    by (simp_all add: step_ok_def free_add codes_free shapes_updates
        del: add_diff_cancel diff_add_cancel)
qed

lemma trigger_word_inv:
  assumes "shapes s" "planes_free_of_unknown (event_status s)"
  shows "step_ok (fst (trigger_word tdf word s ltn), snd (snd (trigger_word tdf word s ltn)))"
proof -
  have len: "0 < length (event_status s)" "length (event_status s) = 7" "length (frame_id s) = 7"
    using assms(1) by (simp_all add: shapes_def)
  have sh: "shapes (fst (trigger_word tdf word s ltn))"
    using assms(1) len
    by (simp add: trigger_word_def Let_def shapes_def del: of_int_add)
  have fr: "planes_free_of_unknown (event_status (fst (trigger_word tdf word s ltn)))"
    using assms(2)
    by (simp add: trigger_word_def Let_def free_add_0 free_upd_0 del: of_int_add)
  have ok: "list_all hit_status_ok (snd (snd (trigger_word tdf word s ltn)))"
    using len(1)
    by (simp add: trigger_word_def Let_def hit_status_ok_def add_event_status_def del: of_int_add)
  show ?thesis using sh fr ok by (simp add: step_ok_def)
qed

lemma m26_word_inv:
  assumes "shapes s" "planes_free_of_unknown (event_status s)"
    "m26_word word s = Inr r"
  shows "step_ok r"
proof (cases "py_index (get_plane_number word - 1) 6")
  case None
  with assms(3) show ?thesis by (simp add: m26_word_def Let_def)
next
  case (Some p)
  have eq: "m26_word word s =
      Inr (if is_data_loss word then (s\<lparr>m26_data_loss := (m26_data_loss s)[p := True]\<rparr>, [])
           else if is_frame_header word
                then (frame_header_word word (get_plane_number word - 1) p s, [])
                else if m26_data_loss s ! p then (s, [])
                     else data_word word (get_plane_number word - 1) p s)"
    by (simp add: m26_word_def Let_def Some)
  have "step_ok (if is_data_loss word then (s\<lparr>m26_data_loss := (m26_data_loss s)[p := True]\<rparr>, [])
           else if is_frame_header word
                then (frame_header_word word (get_plane_number word - 1) p s, [])
                else if m26_data_loss s ! p then (s, [])
                     else data_word word (get_plane_number word - 1) p s)"
    apply (intro step_ok_if data_word_inv[OF assms(1,2) Some])
    using assms(1,2) frame_header_word_inv[OF assms(1,2), of word "get_plane_number word - 1" p]
      shapes_lengths[OF assms(1)]
    by (simp_all add: step_ok_def shapes_updates)
  with eq assms(3) show ?thesis by simp
qed

lemma interpret_word_inv:
  assumes "shapes s" "planes_free_of_unknown (event_status s)"
    "interpret_word tdf word (s, ltn) = Inr ((s', ltn'), hs)"
  shows "step_ok (s', hs)"
proof (cases "is_mimosa_data word")
  case True
  with assms(3) obtain r where r: "m26_word word s = Inr r" and "(s', hs) = r"
    by (cases "m26_word word s") (auto simp: interpret_word_def Let_def)
  with m26_word_inv[OF assms(1,2) r] show ?thesis by simp
next
  case False
  show ?thesis
  proof (cases "is_trigger_word word")
    case True
    with False assms(3) have "s' = fst (trigger_word tdf word s ltn)"
      "hs = snd (snd (trigger_word tdf word s ltn))"
      by (simp_all add: interpret_word_def Let_def split: prod.splits)
    with trigger_word_inv[OF assms(1,2)] show ?thesis by simp
  next
    case nt: False
    with False assms(3) have "s' = s\<lparr>event_status := add_event_status 0 (event_status s) UNKNOWN_WORD\<rparr>"
      "hs = []"
      by (simp_all add: interpret_word_def Let_def)
    with assms(1,2) shapes_lengths[OF assms(1)] show ?thesis
      by (simp add: step_ok_def shapes_updates free_add_0)
  qed
qed

lemma loop_inv:
  assumes "shapes s" "planes_free_of_unknown (event_status s)" "list_all hit_status_ok hits0"
    "loop tdf raw (s, ltn) hits0 = Inr ((s', ltn'), hits)"
  shows "shapes s' \<and> planes_free_of_unknown (event_status s') \<and> list_all hit_status_ok hits"
  using assms
proof (induction raw arbitrary: s ltn hits0)
  case Nil
  then show ?case by simp
next
  case (Cons word raw)
  show ?case
  proof (cases "interpret_word tdf word (s, ltn)")
    case (Inl e)
    with Cons.prems(4) show ?thesis by simp
  next
    case (Inr r)
    obtain s1 ltn1 hs where r: "r = ((s1, ltn1), hs)" by (cases r) auto
    note I = interpret_word_inv[OF Cons.prems(1,2) Inr[unfolded r], unfolded step_ok_def]
    have l: "loop tdf raw (s1, ltn1) (hits0 @ hs) = Inr ((s', ltn'), hits)"
      using Cons.prems(4) Inr r by simp
    show ?thesis
      by (rule Cons.IH[OF _ _ _ l]) (use I Cons.prems(3) in simp_all)
  qed
qed

lemma interpret_raw_data_inv:
  assumes "shapes (buffers self)" "planes_free_of_unknown (event_status (buffers self))"
    "interpret_raw_data self raw = Inr (hits, self')"
  shows "shapes (buffers self') \<and> planes_free_of_unknown (event_status (buffers self'))
         \<and> list_all hit_status_ok hits"
proof -
  from assms(3) obtain s' ltn' where
    l: "loop (trigger_data_format self) raw (buffers self, init_last_trigger_number (buffers self)) []
          = Inr ((s', ltn'), hits)" and s': "self' = self\<lparr>buffers := s'\<rparr>"
    by (auto simp: interpret_raw_data_def build_hits_def split: sum.splits)
  from loop_inv[OF assms(1,2) _ l] s' show ?thesis by simp
qed

lemma interpret_chunks_inv:
  assumes "shapes (buffers self)" "planes_free_of_unknown (event_status (buffers self))"
    "interpret_chunks self chunks = Inr (hits, self')"
  shows "list_all hit_status_ok hits"
  using assms
proof (induction chunks arbitrary: self hits)
  case Nil
  then show ?case by simp
next
  case (Cons chunk chunks)
  from Cons.prems(3) obtain h1 self1 h2 where
    a: "interpret_raw_data self chunk = Inr (h1, self1)" and
    b: "interpret_chunks self1 chunks = Inr (h2, self')" and h: "hits = h1 @ h2"
    by (auto split: sum.splits)
  note I = interpret_raw_data_inv[OF Cons.prems(1,2) a]
  from Cons.IH[OF _ _ b] I have "list_all hit_status_ok h2" by simp
  with I h show ?case by simp
qed

lemma free_reset_state: "planes_free_of_unknown (event_status reset)"
  by (simp add: planes_free_of_unknown_def event_status_reset nth_Cons')

lemma in_bounds_index:
  "in_bounds word \<Longrightarrow> is_mimosa_data word \<Longrightarrow> \<exists>p. py_index (get_plane_number word - 1) 6 = Some p"
  using get_plane_number_range[of word]
  by (auto simp: in_bounds_def py_index_def)

lemma interpret_word_returns:
  assumes "in_bounds word"
  shows "\<exists>s' ltn' hs. interpret_word tdf word (s, ltn) = Inr ((s', ltn'), hs)"
proof (cases "is_mimosa_data word")
  case True
  from in_bounds_index[OF assms True] obtain p where
    "py_index (get_plane_number word - 1) 6 = Some p" ..
  with True show ?thesis
    by (cases "data_word word (get_plane_number word - 1) p s")
       (simp add: interpret_word_def m26_word_def Let_def)
next
  case False
  thus ?thesis
    by (cases "trigger_word tdf word s ltn") (auto simp: interpret_word_def Let_def)
qed

lemma out_of_bounds_word:
  "is_mimosa_data word \<Longrightarrow> 6 < get_plane_number word
   \<Longrightarrow> interpret_word tdf word (s, ltn) = Inl OutOfBounds"
  using get_plane_number_range[of word]
  by (simp add: interpret_word_def m26_word_def Let_def py_index_def)

lemma loop_returns:
  assumes "shapes s" "planes_free_of_unknown (event_status s)" "list_all hit_status_ok hits0"
    "list_all in_bounds raw"
  shows "\<exists>s' ltn' hits. loop tdf raw (s, ltn) hits0 = Inr ((s', ltn'), hits)
           \<and> shapes s' \<and> planes_free_of_unknown (event_status s') \<and> list_all hit_status_ok hits"
  using assms
proof (induction raw arbitrary: s ltn hits0)
  case Nil
  then show ?case by simp
next
  case (Cons word raw)
  from Cons.prems(4) have w: "in_bounds word" and r: "list_all in_bounds raw" by simp_all
  from interpret_word_returns[OF w] obtain s1 ltn1 hs where
    st: "interpret_word tdf word (s, ltn) = Inr ((s1, ltn1), hs)" by blast
  note I = interpret_word_inv[OF Cons.prems(1,2) st, unfolded step_ok_def]
  have "\<exists>s' ltn' hits. loop tdf raw (s1, ltn1) (hits0 @ hs) = Inr ((s', ltn'), hits)
           \<and> shapes s' \<and> planes_free_of_unknown (event_status s') \<and> list_all hit_status_ok hits"
    by (rule Cons.IH[OF _ _ _ r]) (use I Cons.prems(3) in simp_all)
  with st show ?case by simp
qed

lemma interpret_raw_data_returns:
  assumes "shapes (buffers self)" "planes_free_of_unknown (event_status (buffers self))"
    "list_all in_bounds raw"
  shows "\<exists>hits self'. interpret_raw_data self raw = Inr (hits, self')
           \<and> shapes (buffers self') \<and> planes_free_of_unknown (event_status (buffers self'))
           \<and> list_all hit_status_ok hits"
proof -
  from loop_returns[OF assms(1,2) _ assms(3), of "[]" "trigger_data_format self"
      "init_last_trigger_number (buffers self)"]
  obtain s' ltn' hits where
    "loop (trigger_data_format self) raw (buffers self, init_last_trigger_number (buffers self)) []
       = Inr ((s', ltn'), hits)"
    "shapes s'" "planes_free_of_unknown (event_status s')" "list_all hit_status_ok hits"
    by auto
  thus ?thesis by (simp add: interpret_raw_data_def build_hits_def)
qed

lemma interpret_chunks_returns:
  assumes "shapes (buffers self)" "planes_free_of_unknown (event_status (buffers self))"
    "list_all (list_all in_bounds) chunks"
  shows "\<exists>hits self'. interpret_chunks self chunks = Inr (hits, self')
           \<and> list_all hit_status_ok hits"
  using assms
proof (induction chunks arbitrary: self)
  case Nil
  then show ?case by simp
next
  case (Cons chunk chunks)
  from Cons.prems(3) have c: "list_all in_bounds chunk" and cs: "list_all (list_all in_bounds) chunks"
    by simp_all
  from interpret_raw_data_returns[OF Cons.prems(1,2) c] obtain h1 self1 where
    a: "interpret_raw_data self chunk = Inr (h1, self1)" "shapes (buffers self1)"
       "planes_free_of_unknown (event_status (buffers self1))" "list_all hit_status_ok h1"
    by blast
  from Cons.IH[OF a(2,3) cs] obtain h2 self2 where
    b: "interpret_chunks self1 chunks = Inr (h2, self2)" "list_all hit_status_ok h2"
    by blast
  from a b show ?case by simp
qed

text \<open>
  Claim C10 fails on the code as stated. A Mimosa26 word whose plane field is 0 has
  \<^verbatim>\<open>plane_id = -1\<close>; it uses the last element of the arrays of shape 6 and slot 0 of
  \<^verbatim>\<open>event_status\<close>, the slot in which \<^verbatim>\<open>UNKNOWN_WORD\<close> accumulates. After one unknown word, the
  hits of a column word with plane field 0 carry \<^verbatim>\<open>UNKNOWN_WORD\<close> (status \<open>0x10\<close>).
\<close>

theorem unknown_word_in_plane_zero_hit:
  "map_sum id fst (interpret_raw_data (RawDataInterpreter 500000 2)
     [0x00000000, 0x20000000, 0x20000000, 0x20000000, 0x20000001, 0x20000001,
      0x20000011, 0x20000001])
   = Inr [\<lparr>hit_plane = 0, hit_frame = 0, hit_time_stamp = 0, hit_trigger_number = 0,
           hit_column = 0, hit_row = 1, hit_event_status = 0x10\<rparr>,
          \<lparr>hit_plane = 0, hit_frame = 0, hit_time_stamp = 0, hit_trigger_number = 0,
           hit_column = 1, hit_row = 1, hit_event_status = 0x10\<rparr>]"
  by code_simp

text \<open>
  Claim C10, amended. On a stream whose Mimosa26 words all have a plane field of at most 6,
  fed chunk after chunk to an interpreter from its construction, every call returns, every
  hit with plane 255 has the event status \<^verbatim>\<open>TRG_WORD\<close> or \<^verbatim>\<open>TRG_WORD | TRG_ERROR\<close>, and
  \<^verbatim>\<open>UNKNOWN_WORD\<close> does not appear in the event status of any hit whose plane is not 0. (A
  Mimosa26 word with a plane field of 7 or more reads and writes outside the arrays; from
  such a word on the source does not determine what is emitted.)
\<close>

theorem tlu_status_and_unknown_word:
  assumes "list_all (list_all in_bounds) chunks"
  shows "\<exists>hits self'.
           interpret_chunks (RawDataInterpreter mhpc tdf) chunks = Inr (hits, self')
           \<and> (\<forall>h \<in> set hits.
                 (if hit_plane h = 255
                  then hit_event_status h = TRG_WORD
                       \<or> hit_event_status h = TRG_WORD OR TRG_ERROR
                  else hit_plane h = 0 \<or> hit_event_status h AND UNKNOWN_WORD = 0))"
proof -
  have "\<exists>hits self'. interpret_chunks (RawDataInterpreter mhpc tdf) chunks = Inr (hits, self')
           \<and> list_all hit_status_ok hits"
    by (rule interpret_chunks_returns[OF _ _ assms])
       (simp_all add: RawDataInterpreter_def shapes_reset free_reset_state)
  thus ?thesis by (simp add: list_all_iff hit_status_ok_def)
qed

lemma witness_chunks_in_bounds:
  "list_all (list_all in_bounds)
     [[0x00000000, 0x20115555, 0x20105551, 0x20100001, 0x20100000, 0x20100001, 0x20100001],
      [0x20100321, 0x20100192, 0x80000001]]"
  by code_simp

lemma witness_chunks_run:
  "map_sum id fst (interpret_chunks (RawDataInterpreter 500000 2)
     [[0x00000000, 0x20115555, 0x20105551, 0x20100001, 0x20100000, 0x20100001, 0x20100001],
      [0x20100321, 0x20100192, 0x80000001]])
   = Inr [\<lparr>hit_plane = 1, hit_frame = 1, hit_time_stamp = 0x55515555, hit_trigger_number = 0,
           hit_column = 100, hit_row = 50, hit_event_status = 0\<rparr>,
          \<lparr>hit_plane = 1, hit_frame = 1, hit_time_stamp = 0x55515555, hit_trigger_number = 0,
           hit_column = 101, hit_row = 50, hit_event_status = 0\<rparr>,
          \<lparr>hit_plane = 1, hit_frame = 1, hit_time_stamp = 0x55515555, hit_trigger_number = 0,
           hit_column = 102, hit_row = 50, hit_event_status = 0\<rparr>,
          tlu_hit 1 0x4000]"
  by code_simp

theorem tlu_status_and_unknown_word_witness:
  "list_all (list_all in_bounds)
     [[0x00000000, 0x20115555, 0x20105551, 0x20100001, 0x20100000, 0x20100001, 0x20100001],
      [0x20100321, 0x20100192, 0x80000001]]
   \<and> (\<exists>hits self'.
         interpret_chunks (RawDataInterpreter 500000 2)
           [[0x00000000, 0x20115555, 0x20105551, 0x20100001, 0x20100000, 0x20100001, 0x20100001],
            [0x20100321, 0x20100192, 0x80000001]] = Inr (hits, self')
         \<and> length hits = 4
         \<and> hit_plane (hits ! 0) = 1 \<and> hit_event_status (hits ! 0) AND UNKNOWN_WORD = 0
         \<and> hit_plane (hits ! 3) = 255 \<and> hit_event_status (hits ! 3) = TRG_WORD)"
proof -
  from tlu_status_and_unknown_word [OF witness_chunks_in_bounds, of 500000 2]
  obtain hits self' where
    r: "interpret_chunks (RawDataInterpreter 500000 2)
          [[0x00000000, 0x20115555, 0x20105551, 0x20100001, 0x20100000, 0x20100001, 0x20100001],
           [0x20100321, 0x20100192, 0x80000001]] = Inr (hits, self')"
    by blast
  with witness_chunks_run have
    h: "hits = [\<lparr>hit_plane = 1, hit_frame = 1, hit_time_stamp = 0x55515555, hit_trigger_number = 0,
           hit_column = 100, hit_row = 50, hit_event_status = 0\<rparr>,
          \<lparr>hit_plane = 1, hit_frame = 1, hit_time_stamp = 0x55515555, hit_trigger_number = 0,
           hit_column = 101, hit_row = 50, hit_event_status = 0\<rparr>,
          \<lparr>hit_plane = 1, hit_frame = 1, hit_time_stamp = 0x55515555, hit_trigger_number = 0,
           hit_column = 102, hit_row = 50, hit_event_status = 0\<rparr>,
          tlu_hit 1 0x4000]"
    by simp
  have "length hits = 4
         \<and> hit_plane (hits ! 0) = 1 \<and> hit_event_status (hits ! 0) AND UNKNOWN_WORD = 0
         \<and> hit_plane (hits ! 3) = 255 \<and> hit_event_status (hits ! 3) = TRG_WORD"
    unfolding h by (simp add: tlu_hit_def TRG_WORD_def)
  with r witness_chunks_in_bounds show ?thesis by blast
qed

section \<open>Construction\<close>

text \<open>
  Claim C8 fails on the code as stated: \<^verbatim>\<open>RawDataInterpreter.__init__\<close> does not test the
  trigger data format. Constructed with format 0 it interprets a TLU word, taking
  \<open>word & 0x7FFFFFFF\<close> as the trigger number (here \<open>0x10002\<close>, stored in 16 bits as 2).
\<close>

theorem format_zero_interprets:
  "map_sum id fst (interpret_raw_data (RawDataInterpreter 500000 0) [0x80010002])
   = Inr [\<lparr>hit_plane = 255, hit_frame = 0, hit_time_stamp = 1, hit_trigger_number = 2,
           hit_column = 0, hit_row = 1, hit_event_status = 0x4000\<rparr>]"
  by code_simp

text \<open>
  Claim C8, amended. The construction of the \<^verbatim>\<open>DataInterpreter\<close> succeeds exactly if the chunk
  size is at least 100 and the trigger data format is 2, and fails otherwise, before any
  data is read; the construction of the \<^verbatim>\<open>RawDataInterpreter\<close> itself accepts every format and
  starts from the reset buffers, and with a format other than 2 the trigger number of a
  word is \<open>word & 0x7FFFFFFF\<close>.
\<close>

theorem construction_failures:
  "(\<exists>d. DataInterpreter cs tdf = Inr d) = (100 \<le> cs \<and> tdf = 2)
   \<and> (\<exists>e. DataInterpreter cs tdf = Inl e) = (cs < 100 \<or> tdf \<noteq> 2)
   \<and> trigger_data_format (RawDataInterpreter mhpc tdf) = tdf
   \<and> buffers (RawDataInterpreter mhpc tdf) = reset
   \<and> (tdf = 2 \<or> get_trigger_number word tdf = uint word AND 0x7FFFFFFF)"
  by (auto simp: DataInterpreter_def RawDataInterpreter_def Let_def get_trigger_number_def)

theorem construction_failures_witness:
  "(\<exists>e. DataInterpreter 100000000 0 = Inl e)
   \<and> trigger_data_format (RawDataInterpreter 500000 0) = 0
   \<and> get_trigger_number 0x80010002 0 = 0x10002"
  using construction_failures [where cs = 100000000 and tdf = 0 and mhpc = 500000
      and word = "0x80010002"]
  by simp

end
